theory Spec2Isabelle
  imports Main "HOL-Library.Log_Nat"
begin

section \<open>Responses and outcomes of a middleware\<close>

text \<open>
  Every middleware of \<^verbatim>\<open>middleware/auth.js\<close> (the file \<^verbatim>\<open>unnamed/part_000\<close> of the
  sources) either calls \<^verbatim>\<open>next()\<close> or ends the
  request with \<^verbatim>\<open>res.status(n).json({...})\<close>. The JSON body is a record whose optional
  keys are \<open>None\<close> when the object literal of the source does not have them.
\<close>

record body =
  success :: bool
  message :: string
  code :: "string option"
  requiredPlan :: "string option"
  currentPlan :: "string option"
  required :: "int option"
  available :: "int option"

definition json :: "string \<Rightarrow> body" where
  \<comment> \<open>the object literal \<^verbatim>\<open>{ success: false, message: m }\<close>\<close>
  "json m = \<lparr>success = False, message = m, code = None, requiredPlan = None,
              currentPlan = None, required = None, available = None\<rparr>"

datatype result = Next | Respond nat body

section \<open>Tokens\<close>

record payload =
  userId :: string
  organizationId :: string
  iat :: nat
  exp :: nat

text \<open>
  A signed token is kept symbolic: the HMAC signature is represented by the key that
  made it, so a signature matches exactly when the keys are equal.
\<close>

datatype jws = JWS (signed_with: string) (claims: payload)

datatype error = JsonWebTokenError | TokenExpiredError | MongoError

text \<open>
  The process around a request: \<^verbatim>\<open>process.env.JWT_SECRET\<close>, the wall clock
  \<^verbatim>\<open>Date.now()\<close> in milliseconds, the compact serialisation of the jsonwebtoken package
  (which string stands for which signed token) and whether the \<^verbatim>\<open>save()\<close> behind
  \<^verbatim>\<open>updateLastActive\<close> succeeds.
\<close>

record runtime =
  JWT_SECRET :: string
  clock :: nat
  serialize :: "jws \<Rightarrow> string"
  parse :: "string \<Rightarrow> jws option"
  save_ok :: bool

definition expiresIn_7d :: nat where
  \<comment> \<open>the option \<^verbatim>\<open>expiresIn: '7d'\<close>, in seconds\<close>
  "expiresIn_7d = 7 * 24 * 60 * 60"

definition signed_claims :: "runtime \<Rightarrow> string \<Rightarrow> string \<Rightarrow> string \<Rightarrow> nat \<Rightarrow> jws" where
  \<comment> \<open>Modelled from the spec: what \<^verbatim>\<open>jwt.sign\<close> of the jsonwebtoken package (not under
      src/) signs: both ids, the issue time \<^verbatim>\<open>Math.floor(Date.now() / 1000)\<close> and an
      absolute expiry \<open>expiresIn\<close> seconds later, under the secret.\<close>
  "signed_claims rt uid oid secret expiresIn =
     JWS secret \<lparr>payload.userId = uid, payload.organizationId = oid,
                 iat = clock rt div 1000,
                 exp = clock rt div 1000 + expiresIn\<rparr>"

definition jwt_sign :: "runtime \<Rightarrow> string \<Rightarrow> string \<Rightarrow> string \<Rightarrow> nat \<Rightarrow> string" where
  \<comment> \<open>Modelled from the spec: \<^verbatim>\<open>jwt.sign\<close> returns the signed claims in their compact
      serialisation.\<close>
  "jwt_sign rt uid oid secret expiresIn = serialize rt (signed_claims rt uid oid secret expiresIn)"

definition jwt_verify :: "runtime \<Rightarrow> string \<Rightarrow> string \<Rightarrow> error + payload" where
  \<comment> \<open>Modelled from the spec: \<^verbatim>\<open>jwt.verify\<close> of the jsonwebtoken package, which is not
      under src/. A malformed token or a signature that does not match throws
      \<^verbatim>\<open>JsonWebTokenError\<close>; only then is the expiry compared with the clock, in whole
      seconds as the package does, and a token whose expiry second has been reached
      throws \<^verbatim>\<open>TokenExpiredError\<close>. There is no grace period.\<close>
  "jwt_verify rt token secret =
     (case parse rt token of
        None \<Rightarrow> Inl JsonWebTokenError
      | Some (JWS k p) \<Rightarrow>
          if k \<noteq> secret then Inl JsonWebTokenError
          else if exp p \<le> clock rt div 1000 then Inl TokenExpiredError
          else Inr p)"

definition generateToken :: "runtime \<Rightarrow> string \<Rightarrow> string \<Rightarrow> string" where
  \<comment> \<open>backend/src/routes/auth.js, lines 26-32\<close>
  "generateToken rt uid oid = jwt_sign rt uid oid (JWT_SECRET rt) expiresIn_7d"

section \<open>Documents and the store\<close>

record subscription =
  plan :: string
  status :: string

text \<open>
  The counters are JavaScript Numbers that hold integers. A Number is an IEEE double:
  integers up to \<open>2 ^ 53\<close> in magnitude are exact, and the result of an operation is the
  exact result rounded to the nearest double, ties to the even significand.
\<close>

record counters =
  aiCredits :: int

definition MAX_SAFE_INTEGER :: int where
  \<comment> \<open>\<^verbatim>\<open>Number.MAX_SAFE_INTEGER\<close>\<close>
  "MAX_SAFE_INTEGER = 2 ^ 53 - 1"

definition to_double :: "int \<Rightarrow> int" where
  \<comment> \<open>the double nearest to the integer \<open>x\<close> (ties to even), for \<open>x\<close> below \<open>2 ^ 1024\<close> in
      magnitude: beyond 53 bits the low \<open>k\<close> bits are rounded away\<close>
  "to_double x =
     (let m = \<bar>x\<bar> in
      if m \<le> 2 ^ 53 then x
      else
        (let k = nat (bitlen m) - 53;
             q = m div 2 ^ k;
             r = m mod 2 ^ k;
             q' = (if 2 ^ k < 2 * r \<or> (2 * r = 2 ^ k \<and> odd q) then q + 1 else q)
         in sgn x * (q' * 2 ^ k)))"

definition js_minus :: "int \<Rightarrow> int \<Rightarrow> int" where
  \<comment> \<open>JavaScript's \<^verbatim>\<open>a - b\<close> on Numbers that hold integers\<close>
  "js_minus a b = to_double (a - b)"

record doc =
  ident :: string
  isActive :: bool

record User = doc +
  email :: string
  role :: string
  lastActive :: nat

record Organization = doc +
  subscription :: subscription
  limits :: counters
  usage :: counters

record store =
  users :: "User list"
  organizations :: "Organization list"
  connected :: bool

definition findById :: "bool \<Rightarrow> 'a doc_scheme list \<Rightarrow> string \<Rightarrow> error + 'a doc_scheme option" where
  \<comment> \<open>Modelled from the spec: \<^verbatim>\<open>Model.findById\<close> of models/User.js and
      models/Organization.js, which are not under src/. The lookup of a record by id;
      it throws when the store cannot be reached.\<close>
  "findById up docs i =
     (if up then Inr (find (\<lambda>d. ident d = i) docs) else Inl MongoError)"

definition updateLastActive :: "runtime \<Rightarrow> store \<Rightarrow> User \<Rightarrow> error + store" where
  \<comment> \<open>Modelled from the spec: \<^verbatim>\<open>user.updateLastActive()\<close> of models/User.js, which is not
      under src/. It stamps the account with the current time and saves it; the promise
      it returns is rejected when the save fails.\<close>
  "updateLastActive rt db u =
     (if save_ok rt
      then Inr (db\<lparr>users := map (\<lambda>d. if ident d = ident u then d\<lparr>lastActive := clock rt\<rparr> else d)
                                 (users db)\<rparr>)
      else Inl MongoError)"

definition unlimited :: "int \<Rightarrow> bool" where
  \<comment> \<open>Modelled from the spec: the limits value that stands for "unlimited"; the plan
      table of routes/billing.js writes it \<open>-1\<close>.\<close>
  "unlimited l = (l = - 1)"

definition canUseAICredits :: "Organization \<Rightarrow> int \<Rightarrow> bool" where
  \<comment> \<open>Modelled from the spec: \<^verbatim>\<open>organization.canUseAICredits(n)\<close> of
      models/Organization.js, which is not under src/. An unlimited allowance always
      permits; otherwise the remaining allowance, limits minus usage, must not be below
      the requested cost.\<close>
  "canUseAICredits org n =
     (if unlimited (aiCredits (limits org)) then True
      else \<not> (js_minus (aiCredits (limits org)) (aiCredits (usage org)) < n))"

section \<open>The request\<close>

record req_user =
  userId :: string
  organizationId :: string
  role :: string
  email :: string

record request =
  cookies_token :: "string option"
  headers_authorization :: "string option"
  user :: "req_user option"
  organization :: "Organization option"

fun truthy :: "string option \<Rightarrow> bool" where
  \<comment> \<open>JavaScript truthiness of a value that is undefined or a string\<close>
  "truthy None = False"
| "truthy (Some s) = (s \<noteq> [])"

fun active :: "'a doc_scheme option \<Rightarrow> 'a doc_scheme option" where
  \<comment> \<open>the record \<open>d\<close> unless \<^verbatim>\<open>!d || !d.isActive\<close>\<close>
  "active None = None"
| "active (Some d) = (if isActive d then Some d else None)"

definition startsWith :: "string \<Rightarrow> string \<Rightarrow> bool" where
  "startsWith s p = (take (length p) s = p)"

definition get_token :: "request \<Rightarrow> string option" where
  \<comment> \<open>middleware/auth.js, lines 8-15: the variable \<^verbatim>\<open>token\<close> after the extraction\<close>
  "get_token req =
     (let token = cookies_token req in
      if \<not> truthy token \<and> truthy (headers_authorization req)
      then (case headers_authorization req of
              None \<Rightarrow> token
            | Some authHeader \<Rightarrow>
                if startsWith authHeader ''Bearer '' then Some (drop 7 authHeader) else token)
      else token)"

section \<open>The Request Authenticator\<close>

definition auth_try :: "runtime \<Rightarrow> store \<Rightarrow> request \<Rightarrow> error + result \<times> store \<times> request" where
  \<comment> \<open>middleware/auth.js, lines 6-58: the body of the \<^verbatim>\<open>try\<close> block; \<open>Inl\<close> is a throw\<close>
  "auth_try rt db req =
     (let token = get_token req in
      if \<not> truthy token
      then Inr (Respond 401 (json ''Access denied. No token provided.''), db, req)
      else
        (case jwt_verify rt (the token) (JWT_SECRET rt) of
           Inl e \<Rightarrow> Inl e
         | Inr decoded \<Rightarrow>
             (case findById (connected db) (users db) (payload.userId decoded) of
                Inl e \<Rightarrow> Inl e
              | Inr found_user \<Rightarrow>
                  (case active found_user of
                     None \<Rightarrow>
                       Inr (Respond 401 (json ''Invalid token. User not found or inactive.''), db, req)
                   | Some u \<Rightarrow>
                       (case findById (connected db) (organizations db) (payload.organizationId decoded) of
                          Inl e \<Rightarrow> Inl e
                        | Inr found_organization \<Rightarrow>
                            (case active found_organization of
                               None \<Rightarrow>
                                 Inr (Respond 401 (json ''Invalid token. Organization not found or inactive.''),
                                      db, req)
                             | Some org \<Rightarrow>
                                 (let db' = (case updateLastActive rt db u of
                                               Inl _ \<Rightarrow> db
                                             | Inr d \<Rightarrow> d)
                                  in Inr (Next, db',
                                          req\<lparr>user := Some \<lparr>userId = ident u,
                                                             organizationId = ident org,
                                                             role = User.role u,
                                                             email = User.email u\<rparr>,
                                              organization := Some org\<rparr>))))))))"

definition auth :: "runtime \<Rightarrow> store \<Rightarrow> request \<Rightarrow> result \<times> store \<times> request" where
  \<comment> \<open>middleware/auth.js, lines 5-80: the \<^verbatim>\<open>catch\<close> block dispatches on \<^verbatim>\<open>error.name\<close>\<close>
  "auth rt db req =
     (case auth_try rt db req of
        Inr out \<Rightarrow> out
      | Inl e \<Rightarrow>
          if e = JsonWebTokenError then (Respond 401 (json ''Invalid token.''), db, req)
          else if e = TokenExpiredError then (Respond 401 (json ''Token expired.''), db, req)
          else (Respond 500 (json ''Authentication failed.''), db, req))"

section \<open>The Role Authorizer\<close>

definition authorize :: "string list \<Rightarrow> request \<Rightarrow> result \<times> request" where
  \<comment> \<open>middleware/auth.js, lines 83-101\<close>
  "authorize roles req =
     (case user req of
        None \<Rightarrow> (Respond 401 (json ''Access denied. Authentication required.''), req)
      | Some u \<Rightarrow>
          if role u \<notin> set roles
          then (Respond 403 (json ''Access denied. Insufficient permissions.''), req)
          else (Next, req))"

section \<open>The subscription check\<close>

text \<open>
  The values a lookup in the plan table can give: a rank, \<^verbatim>\<open>undefined\<close>, or a member
  that the table, a plain object literal, inherits from \<^verbatim>\<open>Object.prototype\<close>. An inherited
  member is a function or an object; in a comparison it is converted to a string, which
  is all that is kept of it here.
\<close>

datatype js_value = Undefined | Number nat | Object string

definition native_code :: "string \<Rightarrow> string" where
  \<comment> \<open>how Node prints a built-in function\<close>
  "native_code name = ''function '' @ name @ ''() { [native code] }''"

definition Object_prototype :: "string \<Rightarrow> string option" where
  \<comment> \<open>the members of \<^verbatim>\<open>Object.prototype\<close> in Node, by name, each with the string it is
      converted to; \<^verbatim>\<open>__proto__\<close> gives \<^verbatim>\<open>Object.prototype\<close> itself\<close>
  "Object_prototype =
     [''constructor'' \<mapsto> native_code ''Object'',
      ''__defineGetter__'' \<mapsto> native_code ''__defineGetter__'',
      ''__defineSetter__'' \<mapsto> native_code ''__defineSetter__'',
      ''hasOwnProperty'' \<mapsto> native_code ''hasOwnProperty'',
      ''__lookupGetter__'' \<mapsto> native_code ''__lookupGetter__'',
      ''__lookupSetter__'' \<mapsto> native_code ''__lookupSetter__'',
      ''isPrototypeOf'' \<mapsto> native_code ''isPrototypeOf'',
      ''propertyIsEnumerable'' \<mapsto> native_code ''propertyIsEnumerable'',
      ''toString'' \<mapsto> native_code ''toString'',
      ''valueOf'' \<mapsto> native_code ''valueOf'',
      ''__proto__'' \<mapsto> ''[object Object]'',
      ''toLocaleString'' \<mapsto> native_code ''toLocaleString'']"

definition planHierarchy :: "string \<Rightarrow> js_value" where
  \<comment> \<open>middleware/auth.js, lines 105-109, read as \<^verbatim>\<open>planHierarchy[key]\<close>: the own
      properties first, then the prototype\<close>
  "planHierarchy key =
     (case [''starter'' \<mapsto> 0, ''business'' \<mapsto> 1, ''enterprise'' \<mapsto> (2::nat)] key of
        Some n \<Rightarrow> Number n
      | None \<Rightarrow> (case Object_prototype key of Some s \<Rightarrow> Object s | None \<Rightarrow> Undefined))"

fun string_less :: "string \<Rightarrow> string \<Rightarrow> bool" where
  \<comment> \<open>JavaScript's \<^verbatim>\<open><\<close> on two strings: by code unit, a proper prefix first\<close>
  "string_less [] [] = False"
| "string_less [] (y # ys) = True"
| "string_less (x # xs) [] = False"
| "string_less (x # xs) (y # ys) = ((of_char x :: nat) < of_char y \<or> (x = y \<and> string_less xs ys))"

fun js_less :: "js_value \<Rightarrow> js_value \<Rightarrow> bool" where
  \<comment> \<open>JavaScript's \<^verbatim>\<open><\<close> on the values of a lookup: two numbers compare as numbers and
      two converted members as strings; in every other pairing one side converts to NaN
      (\<^verbatim>\<open>undefined\<close>, or a string that is no numeral), and a comparison with NaN is false\<close>
  "js_less (Number a) (Number b) = (a < b)"
| "js_less (Object s) (Object t) = string_less s t"
| "js_less _ _ = False"

definition checkSubscription :: "string \<Rightarrow> request \<Rightarrow> result \<times> request" where
  \<comment> \<open>middleware/auth.js, lines 104-144\<close>
  "checkSubscription requiredPlan' req =
     (case organization req of
        None \<Rightarrow> (Respond 401 (json ''Organization context required.''), req)
      | Some org \<Rightarrow>
          (let currentPlan' = plan (subscription org);
               subscriptionStatus = status (subscription org)
           in if subscriptionStatus \<noteq> ''active''
              then (Respond 403 ((json ''Subscription required. Please upgrade your plan.'')
                                   \<lparr>code := Some ''SUBSCRIPTION_REQUIRED''\<rparr>), req)
              else if js_less (planHierarchy currentPlan') (planHierarchy requiredPlan')
              then (Respond 403 ((json (requiredPlan' @ '' plan or higher required.''))
                                   \<lparr>code := Some ''PLAN_UPGRADE_REQUIRED'',
                                    requiredPlan := Some requiredPlan',
                                    currentPlan := Some currentPlan'\<rparr>), req)
              else (Next, req)))"

text \<open>
  The order of the specification, written from its words: three tiers,
  starter below business below enterprise.
\<close>

datatype tier = Starter | Business | Enterprise

fun tier_of :: "string \<Rightarrow> tier option" where
  "tier_of s = (if s = ''starter'' then Some Starter
                else if s = ''business'' then Some Business
                else if s = ''enterprise'' then Some Enterprise
                else None)"

fun tier_below :: "tier \<Rightarrow> tier \<Rightarrow> bool" where
  "tier_below Starter Business = True"
| "tier_below Starter Enterprise = True"
| "tier_below Business Enterprise = True"
| "tier_below _ _ = False"

definition strictly_below :: "string \<Rightarrow> string \<Rightarrow> bool" where
  "strictly_below cur req =
     (case (tier_of cur, tier_of req) of
        (Some a, Some b) \<Rightarrow> tier_below a b
      | _ \<Rightarrow> False)"

section \<open>The AI credits check\<close>

definition checkAICredits :: "int \<Rightarrow> request \<Rightarrow> result \<times> request" where
  \<comment> \<open>middleware/auth.js, lines 147-168\<close>
  "checkAICredits creditsRequired req =
     (case organization req of
        None \<Rightarrow> (Respond 401 (json ''Organization context required.''), req)
      | Some org \<Rightarrow>
          if \<not> canUseAICredits org creditsRequired
          then (Respond 403 ((json ''Insufficient AI credits. Please upgrade your plan.'')
                               \<lparr>code := Some ''AI_CREDITS_EXHAUSTED'',
                                required := Some creditsRequired,
                                available := Some (js_minus (aiCredits (limits org))
                                                         (aiCredits (usage org)))\<rparr>), req)
          else (Next, req))"

section \<open>Sample data\<close>

abbreviation tenant :: "string \<Rightarrow> string \<Rightarrow> int \<Rightarrow> int \<Rightarrow> Organization" where
  "tenant p s l u \<equiv> \<lparr>ident = ''org-1'', isActive = True,
                     subscription = \<lparr>plan = p, status = s\<rparr>,
                     limits = \<lparr>aiCredits = l\<rparr>, usage = \<lparr>aiCredits = u\<rparr>\<rparr>"

abbreviation account :: "bool \<Rightarrow> User" where
  "account a \<equiv> \<lparr>ident = ''user-1'', isActive = a, User.email = ''a@example.com'',
                 User.role = ''admin'', lastActive = 0\<rparr>"

abbreviation with_tenant :: "Organization \<Rightarrow> request" where
  "with_tenant org \<equiv> \<lparr>cookies_token = None, headers_authorization = None, user = None,
                      organization = Some org\<rparr>"

abbreviation signed_in :: "string \<Rightarrow> request" where
  "signed_in r \<equiv> \<lparr>cookies_token = None, headers_authorization = None,
                   user = Some \<lparr>userId = ''user-1'', organizationId = ''org-1'', role = r,
                                 email = ''a@example.com''\<rparr>,
                   organization = None\<rparr>"

abbreviation carrying :: "string option \<Rightarrow> string option \<Rightarrow> request" where
  "carrying c h \<equiv> \<lparr>cookies_token = c, headers_authorization = h, user = None, organization = None\<rparr>"

abbreviation database :: "User list \<Rightarrow> Organization list \<Rightarrow> store" where
  "database us os \<equiv> \<lparr>users = us, organizations = os, connected = True\<rparr>"

text \<open>
  A serialisation that loses nothing: a number is written as that many \<open>1\<close>s and a full
  stop, a string as its length and then its characters, a signed token as its key, both
  ids, the issue time and the expiry.
\<close>

definition write_nat :: "nat \<Rightarrow> string" where
  "write_nat n = replicate n (CHR ''1'') @ ''.''"

definition read_nat :: "string \<Rightarrow> (nat \<times> string) option" where
  "read_nat s =
     (case dropWhile (\<lambda>c. c = CHR ''1'') s of
        [] \<Rightarrow> None
      | c # rest \<Rightarrow> Some (length (takeWhile (\<lambda>c. c = CHR ''1'') s), rest))"

definition write_string :: "string \<Rightarrow> string" where
  "write_string s = write_nat (length s) @ s"

definition read_string :: "string \<Rightarrow> (string \<times> string) option" where
  "read_string s =
     (case read_nat s of
        None \<Rightarrow> None
      | Some (n, rest) \<Rightarrow> if length rest < n then None else Some (take n rest, drop n rest))"

definition compact :: "jws \<Rightarrow> string" where
  "compact j =
     write_string (signed_with j) @ write_string (payload.userId (claims j))
       @ write_string (payload.organizationId (claims j))
       @ write_nat (iat (claims j)) @ write_nat (exp (claims j))"

definition parse_compact :: "string \<Rightarrow> jws option" where
  "parse_compact s =
     (case read_string s of None \<Rightarrow> None | Some (k, s1) \<Rightarrow>
      (case read_string s1 of None \<Rightarrow> None | Some (u, s2) \<Rightarrow>
       (case read_string s2 of None \<Rightarrow> None | Some (oid, s3) \<Rightarrow>
        (case read_nat s3 of None \<Rightarrow> None | Some (i, s4) \<Rightarrow>
         (case read_nat s4 of None \<Rightarrow> None | Some (e, s5) \<Rightarrow>
            if s5 = [] then Some (JWS k \<lparr>payload.userId = u, payload.organizationId = oid,
                                          iat = i, exp = e\<rparr>)
            else None)))))"

text \<open>
  A process that uses this serialisation and whose secret is \<open>''s3cret''\<close>, and two
  tokens: one issued by this process at second 5 for user-1 of org-1, and one signed
  under another key with an expiry long past.
\<close>

abbreviation process :: "nat \<Rightarrow> bool \<Rightarrow> runtime" where
  "process now ok \<equiv> \<lparr>JWT_SECRET = ''s3cret'', clock = now, serialize = compact,
                      parse = parse_compact, save_ok = ok\<rparr>"

abbreviation good_claims :: payload where
  "good_claims \<equiv> \<lparr>payload.userId = ''user-1'', payload.organizationId = ''org-1'',
                   iat = 5, exp = 604805\<rparr>"

abbreviation good_token :: string where
  "good_token \<equiv> compact (JWS ''s3cret'' good_claims)"

abbreviation forged_claims :: payload where
  "forged_claims \<equiv> \<lparr>payload.userId = ''user-1'', payload.organizationId = ''org-1'',
                     iat = 0, exp = 1\<rparr>"

abbreviation forged_token :: string where
  "forged_token \<equiv> compact (JWS ''other'' forged_claims)"

section \<open>Auxiliary facts\<close>

lemma dropWhile_ones:
  "dropWhile (\<lambda>c. c = CHR ''1'') (replicate n (CHR ''1'') @ CHR ''.'' # rest) = CHR ''.'' # rest"
  by (induction n) simp_all

lemma takeWhile_ones:
  "takeWhile (\<lambda>c. c = CHR ''1'') (replicate n (CHR ''1'') @ CHR ''.'' # rest)
     = replicate n (CHR ''1'')"
  by (induction n) simp_all

lemma read_write_nat: "read_nat (write_nat n @ rest) = Some (n, rest)"
  by (simp add: read_nat_def write_nat_def takeWhile_ones dropWhile_ones)

lemma read_write_string: "read_string (write_string s @ rest) = Some (s, rest)"
  by (simp add: read_string_def write_string_def read_write_nat)

lemma parse_compact_compact: "parse_compact (compact j) = Some j"
proof -
  have "read_nat (write_nat n) = Some (n, [])" for n
    using read_write_nat [of n "[]"] by simp
  then show ?thesis
    by (cases j) (simp add: parse_compact_def compact_def read_write_string read_write_nat)
qed

lemma compact_not_Nil: "compact j \<noteq> []"
  by (simp add: compact_def write_string_def write_nat_def)

lemma to_double_exact: "\<bar>x\<bar> \<le> 2 ^ 53 \<Longrightarrow> to_double x = x"
  by (simp add: to_double_def)

lemma js_minus_rounds: "js_minus 9007199254740994 1 = 9007199254740992"
  \<comment> \<open>beyond \<open>2 ^ 53\<close> the odd difference \<open>2 ^ 53 + 1\<close> is no double\<close>
  by code_simp

lemma js_minus_exact:
  assumes "0 \<le> b" and "b \<le> MAX_SAFE_INTEGER" and "- 1 \<le> a" and "a \<le> MAX_SAFE_INTEGER"
  shows "js_minus a b = a - b"
proof -
  have "\<bar>a - b\<bar> \<le> 2 ^ 53"
    using assms by (simp add: MAX_SAFE_INTEGER_def abs_le_iff)
  then show ?thesis by (simp add: js_minus_def to_double_exact)
qed

lemma planHierarchy_tier:
  "tier_of k = Some t \<Longrightarrow>
   planHierarchy k = Number (case t of Starter \<Rightarrow> 0 | Business \<Rightarrow> 1 | Enterprise \<Rightarrow> 2)"
  by (auto simp: planHierarchy_def split: if_splits)

lemma planHierarchy_other:
  "tier_of k = None \<Longrightarrow>
   planHierarchy k = (case Object_prototype k of Some s \<Rightarrow> Object s | None \<Rightarrow> Undefined)"
  by (auto simp: planHierarchy_def split: if_splits)

lemma Object_prototype_tier: "tier_of k = Some t \<Longrightarrow> Object_prototype k = None"
  by (auto simp: Object_prototype_def split: if_splits)


lemma js_less_planHierarchy:
  assumes "Object_prototype a = None \<or> Object_prototype b = None"
  shows "js_less (planHierarchy a) (planHierarchy b) = strictly_below a b"
proof (cases "tier_of a")
  case None
  note a = this
  show ?thesis
  proof (cases "tier_of b")
    case None
    with a assms show ?thesis
      by (auto simp: planHierarchy_other strictly_below_def split: option.splits)
  next
    case (Some tb)
    with a show ?thesis
      by (auto simp: planHierarchy_other planHierarchy_tier strictly_below_def split: option.splits)
  qed
next
  case (Some ta)
  note a = this
  show ?thesis
  proof (cases "tier_of b")
    case None
    with a show ?thesis
      by (auto simp: planHierarchy_other planHierarchy_tier strictly_below_def split: option.splits)
  next
    case (Some tb)
    with a show ?thesis
      by (cases ta; cases tb) (simp_all add: planHierarchy_tier strictly_below_def)
  qed
qed

lemma tier_below_irrefl: "\<not> tier_below a a"
  by (cases a) simp_all

lemma tier_below_trans: "tier_below a b \<Longrightarrow> tier_below b c \<Longrightarrow> tier_below a c"
  by (cases a; cases b; cases c) simp_all

lemma tier_below_total: "tier_below a b \<or> a = b \<or> tier_below b a"
  by (cases a; cases b) simp_all

lemma seven_days_ms:
  assumes "clock rt + 7 * 24 * 60 * 60 * 1000 < now"
  shows "clock rt div 1000 + expiresIn_7d \<le> now div 1000"
proof -
  have "(clock rt + 604800 * 1000) div 1000 \<le> now div 1000"
    using assms by (intro div_le_mono) simp
  then show ?thesis by (simp add: expiresIn_7d_def)
qed

lemma auth_try_throws:
  assumes "get_token req = Some tok" and "tok \<noteq> []"
    and "jwt_verify rt tok (JWT_SECRET rt) = Inl e"
  shows "auth_try rt db req = Inl e"
  using assms by (simp add: auth_try_def)

section \<open>Token issue and verification\<close>

text \<open>
  C1. Let the serialisation of the package lose nothing: every signed token is read
  back from its string. Then a token issued for an account id \<open>a\<close> and a tenant id \<open>t\<close>,
  verified by the same process at a time whose second lies before the expiry, yields
  exactly \<open>a\<close> and \<open>t\<close> (with the issue time and the expiry seven days later); verified
  more than seven days (in milliseconds) after it was issued, it fails with
  TokenExpiredError.
\<close>

theorem token_round_trip:
  assumes codec: "\<And>j. parse rt (serialize rt j) = Some j"
  shows "(now div 1000 < clock rt div 1000 + expiresIn_7d \<longrightarrow>
            jwt_verify (rt\<lparr>clock := now\<rparr>) (generateToken rt a t) (JWT_SECRET rt)
              = Inr \<lparr>payload.userId = a, payload.organizationId = t,
                     iat = clock rt div 1000, exp = clock rt div 1000 + expiresIn_7d\<rparr>)
       \<and> (clock rt + 7 * 24 * 60 * 60 * 1000 < now \<longrightarrow>
            jwt_verify (rt\<lparr>clock := now\<rparr>) (generateToken rt a t) (JWT_SECRET rt)
              = Inl TokenExpiredError)"
proof -
  have issued: "parse rt (generateToken rt a t)
                  = Some (signed_claims rt a t (JWT_SECRET rt) expiresIn_7d)"
    unfolding generateToken_def jwt_sign_def by (rule codec)
  show ?thesis
  proof (intro conjI impI)
    assume "now div 1000 < clock rt div 1000 + expiresIn_7d"
    then show "jwt_verify (rt\<lparr>clock := now\<rparr>) (generateToken rt a t) (JWT_SECRET rt)
                = Inr \<lparr>payload.userId = a, payload.organizationId = t,
                       iat = clock rt div 1000, exp = clock rt div 1000 + expiresIn_7d\<rparr>"
      using issued by (simp add: jwt_verify_def signed_claims_def)
  next
    assume "clock rt + 7 * 24 * 60 * 60 * 1000 < now"
    then have "clock rt div 1000 + expiresIn_7d \<le> now div 1000"
      by (rule seven_days_ms)
    then show "jwt_verify (rt\<lparr>clock := now\<rparr>) (generateToken rt a t) (JWT_SECRET rt)
                = Inl TokenExpiredError"
      using issued by (simp add: jwt_verify_def signed_claims_def)
  qed
qed

theorem token_round_trip_witness:
  "jwt_verify (process 6000 True) (generateToken (process 5000 True) ''user-1'' ''org-1'') ''s3cret''
     = Inr \<lparr>payload.userId = ''user-1'', payload.organizationId = ''org-1'', iat = 5, exp = 604805\<rparr>
   \<and> jwt_verify (process 604805001 True) (generateToken (process 5000 True) ''user-1'' ''org-1'')
        ''s3cret''
     = Inl TokenExpiredError"
  using token_round_trip [where rt = "process 5000 True" and a = "''user-1''" and t = "''org-1''"
                            and now = 6000]
        token_round_trip [where rt = "process 5000 True" and a = "''user-1''" and t = "''org-1''"
                            and now = 604805001]
  by (simp add: parse_compact_compact expiresIn_7d_def)

text \<open>
  C2. A token signed under a key other than the configured secret fails verification
  with JsonWebTokenError whatever its expiry, and the Request Authenticator answers
  401 "Invalid token.", not "Token expired.".
\<close>

theorem wrong_secret_is_invalid_token:
  assumes "get_token req = Some tok" and "tok \<noteq> []"
    and "parse rt tok = Some (JWS k p)"
    and "k \<noteq> JWT_SECRET rt"
  shows "jwt_verify rt tok (JWT_SECRET rt) = Inl JsonWebTokenError
         \<and> auth rt db req = (Respond 401 (json ''Invalid token.''), db, req)"
proof -
  have v: "jwt_verify rt tok (JWT_SECRET rt) = Inl JsonWebTokenError"
    using assms(3,4) by (simp add: jwt_verify_def)
  have "auth_try rt db req = Inl JsonWebTokenError"
    using assms(1,2) v by (rule auth_try_throws)
  then show ?thesis using v by (simp add: auth_def)
qed

theorem wrong_secret_is_invalid_token_witness:
  "auth (process 5000 True) (database [account True] [tenant ''starter'' ''active'' 1000 0])
        (carrying (Some forged_token) None)
     = (Respond 401 \<lparr>success = False, message = ''Invalid token.'', code = None,
                     requiredPlan = None, currentPlan = None, required = None, available = None\<rparr>,
        database [account True] [tenant ''starter'' ''active'' 1000 0],
        carrying (Some forged_token) None)"
  using wrong_secret_is_invalid_token
          [where rt = "process 5000 True" and req = "carrying (Some forged_token) None"
             and tok = forged_token and k = "''other''" and p = forged_claims
             and db = "database [account True] [tenant ''starter'' ''active'' 1000 0]"]
  by (simp add: get_token_def json_def parse_compact_compact compact_not_Nil)

section \<open>The Request Authenticator: properties\<close>

text \<open>
  C3, as the code has it. A session cookie with a non-empty value is the token, whatever
  the Authorization header holds; when the cookie is absent (or empty) and the header
  is \<^verbatim>\<open>Bearer \<close> followed by a value, that value is the token; when no token
  results, the request is answered 401 with \<^verbatim>\<open>success: false\<close> and nothing changes.
\<close>

theorem token_extraction:
  "(\<forall>c h. cookies_token req = Some c \<and> c \<noteq> [] \<longrightarrow>
           get_token (req\<lparr>headers_authorization := h\<rparr>) = Some c)
   \<and> (\<forall>v. \<not> truthy (cookies_token req) \<and> headers_authorization req = Some (''Bearer '' @ v) \<longrightarrow>
           get_token req = Some v)
   \<and> (\<not> truthy (get_token req) \<longrightarrow>
           auth rt db req = (Respond 401 (json ''Access denied. No token provided.''), db, req))"
  by (simp add: get_token_def startsWith_def auth_def auth_try_def)

theorem token_extraction_witness:
  "get_token (carrying (Some ''tok-a'') (Some ''Bearer tok-b'')) = Some ''tok-a''
   \<and> get_token (carrying None (Some ''Bearer tok-a'')) = Some ''tok-a''
   \<and> auth (process 5000 True) (database [] []) (carrying None None)
       = (Respond 401 \<lparr>success = False, message = ''Access denied. No token provided.'',
                       code = None, requiredPlan = None, currentPlan = None, required = None,
                       available = None\<rparr>,
          database [] [], carrying None None)"
proof -
  have "get_token ((carrying (Some ''tok-a'') None)\<lparr>headers_authorization := Some ''Bearer tok-b''\<rparr>)
          = Some ''tok-a''"
    using token_extraction [of "carrying (Some ''tok-a'') None"] by simp
  moreover have "get_token (carrying None (Some ''Bearer tok-a'')) = Some ''tok-a''"
    using token_extraction [of "carrying None (Some ''Bearer tok-a'')"] by simp
  moreover have "get_token (carrying None None) = None"
    by (simp add: get_token_def)
  then have "auth (process 5000 True) (database [] []) (carrying None None)
               = (Respond 401 (json ''Access denied. No token provided.''),
                  database [] [], carrying None None)"
    using token_extraction [of "carrying None None" "process 5000 True" "database [] []"] by simp
  ultimately show ?thesis by (simp add: json_def)
qed

text \<open>
  C3 as stated fails for a cookie that is present with an empty value: the header is
  not ignored, its bearer value becomes the token.
\<close>

theorem token_extraction_counterexample:
  "cookies_token (carrying (Some []) (Some ''Bearer abc'')) = Some []
   \<and> get_token (carrying (Some []) (Some ''Bearer abc'')) = Some ''abc''"
  by (simp add: get_token_def startsWith_def)

text \<open>
  C8. When the token verifies and the account and the tenant are found and active, a
  failed save of the "last active" time changes nothing for the request: the context
  and the tenant are attached and the next handler is called.
\<close>

theorem last_active_failure_does_not_reject:
  assumes "get_token req = Some tok" and "tok \<noteq> []"
    and "jwt_verify rt tok (JWT_SECRET rt) = Inr decoded"
    and "findById (connected db) (users db) (payload.userId decoded) = Inr (Some u)"
    and "isActive u"
    and "findById (connected db) (organizations db) (payload.organizationId decoded) = Inr (Some org)"
    and "isActive org"
    and "updateLastActive rt db u = Inl e"
  shows "auth rt db req =
           (Next, db, req\<lparr>user := Some \<lparr>userId = ident u, organizationId = ident org,
                                        role = User.role u, email = User.email u\<rparr>,
                          organization := Some org\<rparr>)"
  using assms by (simp add: auth_def auth_try_def)

theorem last_active_failure_does_not_reject_witness:
  "auth (process 6000 False) (database [account True] [tenant ''starter'' ''active'' 1000 0])
        (carrying (Some good_token) None)
     = (Next, database [account True] [tenant ''starter'' ''active'' 1000 0],
        \<lparr>cookies_token = Some good_token, headers_authorization = None,
         user = Some \<lparr>userId = ''user-1'', organizationId = ''org-1'', role = ''admin'',
                       email = ''a@example.com''\<rparr>,
         organization = Some (tenant ''starter'' ''active'' 1000 0)\<rparr>)"
  using last_active_failure_does_not_reject
          [where rt = "process 6000 False" and req = "carrying (Some good_token) None"
             and tok = good_token and decoded = good_claims
             and db = "database [account True] [tenant ''starter'' ''active'' 1000 0]"
             and u = "account True" and org = "tenant ''starter'' ''active'' 1000 0"
             and e = MongoError]
  by (simp add: get_token_def jwt_verify_def findById_def updateLastActive_def
        parse_compact_compact compact_not_Nil)

text \<open>
  C9. For a token that verifies, the answer for an account that does not exist equals
  the answer for an account that exists and is not active: 401 with the same message,
  the request unchanged. The same holds for a tenant that does not exist against one
  that is not active.
\<close>

theorem not_found_and_inactive_are_indistinguishable:
  assumes "get_token req = Some tok" and "tok \<noteq> []"
    and "jwt_verify rt tok (JWT_SECRET rt) = Inr decoded"
  shows "(findById (connected db1) (users db1) (payload.userId decoded) = Inr None
          \<and> findById (connected db2) (users db2) (payload.userId decoded) = Inr (Some u)
          \<and> \<not> isActive u \<longrightarrow>
            auth rt db1 req
              = (Respond 401 (json ''Invalid token. User not found or inactive.''), db1, req)
          \<and> auth rt db2 req
              = (Respond 401 (json ''Invalid token. User not found or inactive.''), db2, req))
       \<and> (findById (connected db1) (users db1) (payload.userId decoded) = Inr (Some u1)
          \<and> isActive u1
          \<and> findById (connected db2) (users db2) (payload.userId decoded) = Inr (Some u2)
          \<and> isActive u2
          \<and> findById (connected db1) (organizations db1) (payload.organizationId decoded) = Inr None
          \<and> findById (connected db2) (organizations db2) (payload.organizationId decoded)
              = Inr (Some org)
          \<and> \<not> isActive org \<longrightarrow>
            auth rt db1 req
              = (Respond 401 (json ''Invalid token. Organization not found or inactive.''), db1, req)
          \<and> auth rt db2 req
              = (Respond 401 (json ''Invalid token. Organization not found or inactive.''), db2, req))"
  using assms by (simp add: auth_def auth_try_def)

theorem not_found_and_inactive_are_indistinguishable_witness:
  "fst (auth (process 6000 True) (database [] []) (carrying (Some good_token) None))
     = fst (auth (process 6000 True) (database [account False] []) (carrying (Some good_token) None))
   \<and> fst (auth (process 6000 True) (database [account True] []) (carrying (Some good_token) None))
     = fst (auth (process 6000 True)
              (database [account True] [(tenant ''starter'' ''active'' 1000 0)\<lparr>isActive := False\<rparr>])
              (carrying (Some good_token) None))"
  using not_found_and_inactive_are_indistinguishable
          [where rt = "process 6000 True" and req = "carrying (Some good_token) None"
             and tok = good_token and decoded = good_claims
             and ?db1.0 = "database [] []" and ?db2.0 = "database [account False] []"
             and u = "account False"]
        not_found_and_inactive_are_indistinguishable
          [where rt = "process 6000 True" and req = "carrying (Some good_token) None"
             and tok = good_token and decoded = good_claims
             and ?db1.0 = "database [account True] []"
             and ?db2.0 = "database [account True]
                              [(tenant ''starter'' ''active'' 1000 0)\<lparr>isActive := False\<rparr>]"
             and ?u1.0 = "account True" and ?u2.0 = "account True"
             and org = "(tenant ''starter'' ''active'' 1000 0)\<lparr>isActive := False\<rparr>"]
  by (simp add: get_token_def jwt_verify_def findById_def parse_compact_compact compact_not_Nil)

section \<open>The Role Authorizer: properties\<close>

text \<open>
  C7. A context whose role is not among the allowed roles is answered 403, whatever its
  other fields; a request with no context is answered 401; the request, with its
  context and its tenant, is returned as it came.
\<close>

theorem role_authorizer:
  "(\<forall>u. user req = Some u \<and> role u \<notin> set roles \<longrightarrow>
         fst (authorize roles req) = Respond 403 (json ''Access denied. Insufficient permissions.''))
   \<and> (user req = None \<longrightarrow>
         fst (authorize roles req) = Respond 401 (json ''Access denied. Authentication required.''))
   \<and> snd (authorize roles req) = req"
  by (simp add: authorize_def split: option.splits)

theorem role_authorizer_witness:
  "fst (authorize [''admin''] (signed_in ''staff''))
     = Respond 403 (json ''Access denied. Insufficient permissions.'')
   \<and> fst (authorize [''admin''] (carrying None None))
     = Respond 401 (json ''Access denied. Authentication required.'')
   \<and> snd (authorize [''admin''] (signed_in ''staff'')) = signed_in ''staff''"
  using role_authorizer [of "signed_in ''staff''" "[''admin'']"]
        role_authorizer [of "carrying None None" "[''admin'']"]
  by simp

section \<open>The subscription check: properties\<close>

text \<open>
  C4. A tenant whose subscription status is not "active" is answered 403 with the code
  SUBSCRIPTION_REQUIRED, whatever its plan and whatever plan is required: the status is
  tested before the plans are compared.
\<close>

theorem subscription_status_precedes_tier:
  assumes "organization req = Some org"
    and "status (subscription org) \<noteq> ''active''"
  shows "checkSubscription rp req =
           (Respond 403 ((json ''Subscription required. Please upgrade your plan.'')
                           \<lparr>code := Some ''SUBSCRIPTION_REQUIRED''\<rparr>), req)"
  using assms by (simp add: checkSubscription_def)

theorem subscription_status_precedes_tier_witness:
  "checkSubscription ''starter'' (with_tenant (tenant ''enterprise'' ''past_due'' 1000 0))
   = (Respond 403 \<lparr>success = False, message = ''Subscription required. Please upgrade your plan.'',
                   code = Some ''SUBSCRIPTION_REQUIRED'', requiredPlan = None, currentPlan = None,
                   required = None, available = None\<rparr>,
      with_tenant (tenant ''enterprise'' ''past_due'' 1000 0))"
  using subscription_status_precedes_tier [where org = "tenant ''enterprise'' ''past_due'' 1000 0"]
  by (simp add: json_def)

text \<open>
  C5. For a tenant whose subscription is active, and a required plan that has a rank
  (more generally, as long as the current and the required plan are not both names of
  members every object inherits), the answer is 403 with the code
  PLAN_UPGRADE_REQUIRED, the required plan and the current plan exactly when the current
  plan lies strictly below the required plan in the order starter, business,
  enterprise; in every other case the next handler is called.
\<close>

theorem plan_upgrade_required_iff_strictly_below:
  assumes "organization req = Some org"
    and "status (subscription org) = ''active''"
    and "Object_prototype (plan (subscription org)) = None \<or> Object_prototype rp = None"
  shows "checkSubscription rp req =
           (if strictly_below (plan (subscription org)) rp
            then (Respond 403 ((json (rp @ '' plan or higher required.''))
                                 \<lparr>code := Some ''PLAN_UPGRADE_REQUIRED'',
                                  requiredPlan := Some rp,
                                  currentPlan := Some (plan (subscription org))\<rparr>), req)
            else (Next, req))"
  using assms(1,2) js_less_planHierarchy [OF assms(3)] by (simp add: checkSubscription_def)

theorem plan_upgrade_required_iff_strictly_below_witness:
  "checkSubscription ''enterprise'' (with_tenant (tenant ''business'' ''active'' 1000 0))
   = (Respond 403 \<lparr>success = False, message = ''enterprise plan or higher required.'',
                   code = Some ''PLAN_UPGRADE_REQUIRED'', requiredPlan = Some ''enterprise'',
                   currentPlan = Some ''business'', required = None, available = None\<rparr>,
      with_tenant (tenant ''business'' ''active'' 1000 0))
   \<and> checkSubscription ''business'' (with_tenant (tenant ''business'' ''active'' 1000 0))
   = (Next, with_tenant (tenant ''business'' ''active'' 1000 0))
   \<and> checkSubscription ''starter'' (with_tenant (tenant ''constructor'' ''active'' 1000 0))
   = (Next, with_tenant (tenant ''constructor'' ''active'' 1000 0))"
  using plan_upgrade_required_iff_strictly_below [where org = "tenant ''business'' ''active'' 1000 0"]
        plan_upgrade_required_iff_strictly_below [where org = "tenant ''constructor'' ''active'' 1000 0"]
  by (simp add: json_def strictly_below_def Object_prototype_def)

text \<open>
  C10, as the code has it. For a tenant whose subscription is active and whose plan is
  none of starter, business and enterprise, the lookup gives no rank (nothing, or a
  member the table inherits), and against every required plan that is not itself the
  name of an inherited member, so against each of the three tiers, the comparison is
  false and the next handler is called.
\<close>

theorem unrecognised_plan_is_forwarded:
  assumes "organization req = Some org"
    and "status (subscription org) = ''active''"
    and "plan (subscription org) \<notin> {''starter'', ''business'', ''enterprise''}"
    and "Object_prototype rp = None"
  shows "(\<forall>n. planHierarchy (plan (subscription org)) \<noteq> Number n)
         \<and> \<not> js_less (planHierarchy (plan (subscription org))) (planHierarchy rp)
         \<and> checkSubscription rp req = (Next, req)"
proof -
  have none: "tier_of (plan (subscription org)) = None"
    using assms(3) by simp
  then have no_rank: "\<forall>n. planHierarchy (plan (subscription org)) \<noteq> Number n"
    by (simp add: planHierarchy_other split: option.splits)
  have "js_less (planHierarchy (plan (subscription org))) (planHierarchy rp)
          = strictly_below (plan (subscription org)) rp"
    using assms(4) by (simp add: js_less_planHierarchy)
  then have not_less: "\<not> js_less (planHierarchy (plan (subscription org))) (planHierarchy rp)"
    using none by (simp add: strictly_below_def)
  then have "checkSubscription rp req = (Next, req)"
    using assms(1,2) by (simp add: checkSubscription_def)
  with no_rank not_less show ?thesis by simp
qed

theorem unrecognised_plan_is_forwarded_witness:
  "checkSubscription ''enterprise'' (with_tenant (tenant ''trial'' ''active'' 1000 0))
   = (Next, with_tenant (tenant ''trial'' ''active'' 1000 0))
   \<and> checkSubscription ''enterprise'' (with_tenant (tenant ''constructor'' ''active'' 1000 0))
   = (Next, with_tenant (tenant ''constructor'' ''active'' 1000 0))"
  using unrecognised_plan_is_forwarded [where org = "tenant ''trial'' ''active'' 1000 0"]
        unrecognised_plan_is_forwarded [where org = "tenant ''constructor'' ''active'' 1000 0"]
  by (simp add: Object_prototype_def)

text \<open>
  C10 as stated fails for the plan "constructor": it is none of the three tiers, yet the
  lookup in the table yields an entry, the inherited member; and against the required
  plan "toString", another inherited name, both sides are compared as strings and the
  answer is 403 PLAN_UPGRADE_REQUIRED.
\<close>

theorem unrecognised_plan_counterexample:
  "planHierarchy ''constructor'' = Object ''function Object() { [native code] }''
   \<and> checkSubscription ''toString'' (with_tenant (tenant ''constructor'' ''active'' 1000 0))
     = (Respond 403 \<lparr>success = False, message = ''toString plan or higher required.'',
                     code = Some ''PLAN_UPGRADE_REQUIRED'', requiredPlan = Some ''toString'',
                     currentPlan = Some ''constructor'', required = None, available = None\<rparr>,
        with_tenant (tenant ''constructor'' ''active'' 1000 0))"
  by (simp add: checkSubscription_def planHierarchy_def Object_prototype_def native_code_def
        json_def Let_def)

section \<open>The AI credits check: properties\<close>

text \<open>
  C6. With a tenant attached whose usage is a non-negative safe integer and whose limit
  is a non-negative safe integer or the unlimited value, and a positive cost: an
  unlimited allowance always passes; otherwise, when limits minus usage is below the
  cost, the answer is 403 with the code AI_CREDITS_EXHAUSTED, \<open>required\<close> the cost and
  \<open>available\<close> limits minus usage (limit 1000, usage 995 and cost 10 give available 5
  and required 10); otherwise the next handler is called.
\<close>

theorem ai_credits_check:
  assumes "organization req = Some org"
    and "0 \<le> aiCredits (usage org)" and "aiCredits (usage org) \<le> MAX_SAFE_INTEGER"
    and "- 1 \<le> aiCredits (limits org)" and "aiCredits (limits org) \<le> MAX_SAFE_INTEGER"
    and "0 < cost" and "cost \<le> MAX_SAFE_INTEGER"
  shows "checkAICredits cost req =
           (if unlimited (aiCredits (limits org)) then (Next, req)
            else if aiCredits (limits org) - aiCredits (usage org) < cost
            then (Respond 403 ((json ''Insufficient AI credits. Please upgrade your plan.'')
                                 \<lparr>code := Some ''AI_CREDITS_EXHAUSTED'',
                                  required := Some cost,
                                  available := Some (aiCredits (limits org) - aiCredits (usage org))\<rparr>),
                  req)
            else (Next, req))"
proof -
  have "js_minus (aiCredits (limits org)) (aiCredits (usage org))
          = aiCredits (limits org) - aiCredits (usage org)"
    using assms(2-5) by (rule js_minus_exact)
  then show ?thesis
    using assms(1) by (simp add: checkAICredits_def canUseAICredits_def)
qed

theorem ai_credits_check_witness:
  "checkAICredits 10 (with_tenant (tenant ''starter'' ''active'' 1000 995))
   = (Respond 403 \<lparr>success = False, message = ''Insufficient AI credits. Please upgrade your plan.'',
                   code = Some ''AI_CREDITS_EXHAUSTED'', requiredPlan = None, currentPlan = None,
                   required = Some 10, available = Some 5\<rparr>,
      with_tenant (tenant ''starter'' ''active'' 1000 995))
   \<and> checkAICredits 10 (with_tenant (tenant ''enterprise'' ''active'' (- 1) 995))
   = (Next, with_tenant (tenant ''enterprise'' ''active'' (- 1) 995))
   \<and> checkAICredits 5 (with_tenant (tenant ''starter'' ''active'' 1000 995))
   = (Next, with_tenant (tenant ''starter'' ''active'' 1000 995))"
  using ai_credits_check [where org = "tenant ''starter'' ''active'' 1000 995" and cost = 10]
        ai_credits_check [where org = "tenant ''enterprise'' ''active'' (- 1) 995" and cost = 10]
        ai_credits_check [where org = "tenant ''starter'' ''active'' 1000 995" and cost = 5]
  by (simp add: json_def unlimited_def MAX_SAFE_INTEGER_def)

end
